theory Spec2Isabelle
  imports Main "HOL-Library.AList" "HOL-Library.Char_ord" "HOL-Library.List_Lexorder"
begin

section \<open>gorest: a fluent HTTP request builder\<close>

text \<open>
  A shallow embedding of \<^verbatim>\<open>gorest.go\<close>. Functions of the repository are translated
  one by one and keep their names. Functions of the Go standard library are either
  modelled on the level of abstraction the builder observes (the JSON round trip of
  \<^verbatim>\<open>toMap\<close>, \<^verbatim>\<open>strconv\<close>, \<^verbatim>\<open>url.Values\<close>, \<^verbatim>\<open>http.NewRequest\<close>,
  slices and \<^verbatim>\<open>append\<close>) or taken as parameters (URL parsing, printing and
  resolution, header keys, base64, the JSON text of a map, decoding of a response body,
  the HTTP executor).
\<close>

subsection \<open>Outcomes\<close>

text \<open>
  Every returned \<^verbatim>\<open>error\<close> of the source is a constructor; a run-time panic is not
  an error value and has an outcome of its own.
\<close>

datatype error =
    UnsupportedTypeError
  | UnsupportedValueError
  | UnmarshalTypeError
  | SyntaxError
  | UrlError string
  | NewRequestError string
  | UnknownMethod string
  | MarshalError string
  | DoError string
  | ReadError string
  | ApiError string
  | ParseBodyError error string

datatype panic = NilFuncCall | TypeAssertion | NilDereference

datatype 'a run = Returns 'a | Panics panic

subsection \<open>float64\<close>

text \<open>
  A finite float64 is a signed integer significand and a binary exponent, standing for
  \<open>m * 2 ^ e\<close>; the negative zero is not distinguished.
\<close>

datatype f64 = Finite int int | Inf bool | NaN

function bitlen :: "int \<Rightarrow> nat" where
  "bitlen n = (if n \<le> 0 then 0 else Suc (bitlen (n div 2)))"
  by pat_completeness auto
termination
  by (relation "measure nat") auto

declare bitlen.simps [simp del]

text \<open>
  The float64 nearest to an integer, ties to the even significand: what
  \<^verbatim>\<open>strconv.ParseFloat\<close> gives for the literal of an integer of at most 64 bits.
\<close>

definition f64_of_int :: "int \<Rightarrow> f64" where
  "f64_of_int n =
     (let a = \<bar>n\<bar>; l = bitlen a in
      if l \<le> 53 then Finite n 0
      else let k = l - 53; q = a div 2 ^ k; r = a mod 2 ^ k;
               q' = (if 2 * r > 2 ^ k \<or> (2 * r = 2 ^ k \<and> odd q) then q + 1 else q)
           in Finite (sgn n * q') (int k))"

subsection \<open>strconv\<close>

function decimal :: "int \<Rightarrow> string" where
  "decimal n =
     (if n < 10 then [''0123456789'' ! nat n]
      else decimal (n div 10) @ [''0123456789'' ! nat (n mod 10)])"
  by pat_completeness auto
termination
  by (relation "measure nat") auto

declare decimal.simps [simp del]

text \<open>\<^verbatim>\<open>strconv.FormatInt(i, 10)\<close>\<close>

definition FormatInt :: "int \<Rightarrow> string" where
  "FormatInt i = (if i < 0 then CHR ''-'' # decimal (- i) else decimal i)"

definition FormatBool :: "bool \<Rightarrow> string" where
  "FormatBool b = (if b then ''true'' else ''false'')"

text \<open>
  \<^verbatim>\<open>strconv.FormatFloat(f, 'f', -1, 64)\<close>: the shortest decimal that reads back as
  \<open>f\<close> (the nearest to \<open>f\<close> among the shortest), printed without exponent. The
  rounding interval of \<open>f\<close> reaches half way to its two neighbours; its ends belong
  to it when the significand is even. All quantities are integers in units of
  \<open>2 ^ s\<close>, a quarter of the distance to the upper neighbour.
\<close>

definition pw :: "int \<Rightarrow> int \<Rightarrow> int" where
  "pw b k = b ^ nat k"

text \<open>The sign of \<open>D * 10 ^ p - X * 2 ^ s\<close>, by cross multiplication.\<close>

definition diff_scaled :: "int \<Rightarrow> int \<Rightarrow> int \<Rightarrow> int \<Rightarrow> int" where
  "diff_scaled D p X s = D * pw 10 p * pw 2 (- s) - X * pw 2 s * pw 10 (- p)"

text \<open>The integer part of \<open>X * 2 ^ s / 10 ^ p\<close>.\<close>

definition floor_scaled :: "int \<Rightarrow> int \<Rightarrow> int \<Rightarrow> int" where
  "floor_scaled X s p = (X * pw 2 s * pw 10 (- p)) div (pw 2 (- s) * pw 10 p)"

text \<open>The largest \<open>p\<close> at or below the start with \<open>10 ^ p \<le> X * 2 ^ s\<close>.\<close>

fun dexp_down :: "nat \<Rightarrow> int \<Rightarrow> int \<Rightarrow> int \<Rightarrow> int" where
  "dexp_down 0 p X s = p"
| "dexp_down (Suc n) p X s = (if floor_scaled X s p \<ge> 1 then p else dexp_down n (p - 1) X s)"

text \<open>
  One more digit at a time (\<open>p\<close> falls), until the decimal below or the decimal
  above \<open>V\<close> lies in the interval; 17 digits always suffice. The decimal above may
  carry into a new digit (9 becomes 10); it is then written without the zero.
\<close>

definition carry :: "int \<Rightarrow> int \<Rightarrow> int \<times> int" where
  "carry D p = (if D mod 10 = 0 then (D div 10, p + 1) else (D, p))"

fun shortest :: "nat \<Rightarrow> int \<Rightarrow> int \<Rightarrow> int \<Rightarrow> int \<Rightarrow> int \<Rightarrow> bool \<Rightarrow> int \<times> int" where
  "shortest 0 p V lo hi s incl = (floor_scaled V s p, p)"
| "shortest (Suc n) p V lo hi s incl =
     (let Dl = floor_scaled V s p; Dh = Dl + 1;
          okl = (if incl then diff_scaled Dl p lo s \<ge> 0 else diff_scaled Dl p lo s > 0);
          okh = (if incl then diff_scaled Dh p hi s \<le> 0 else diff_scaled Dh p hi s < 0);
          c = diff_scaled (Dl + Dh) p (2 * V) s
      in if okl \<and> okh then (if c < 0 \<or> (c = 0 \<and> odd Dl) then carry Dh p else (Dl, p))
         else if okl then (Dl, p)
         else if okh then carry Dh p
         else shortest n (p - 1) V lo hi s incl)"

definition shortest_decimal :: "int \<Rightarrow> int \<Rightarrow> int \<times> int" where
  "shortest_decimal a e =
     (let l = int (bitlen a);
          E = max (e + l - 53) (- 1074);
          s = E - 2;
          V = (a * 4 * pw 2 (e - E)) div pw 2 (E - e);
          M = V div 4;
          lo = V - (if a = 2 ^ (nat l - 1) \<and> E > - 1074 then 1 else 2);
          hi = V + 2;
          ip = floor_scaled V s 0;
          p0 = (if ip \<ge> 1 then int (length (decimal ip)) - 1 else dexp_down 400 (- 1) V s)
      in shortest 17 p0 V lo hi s (even M))"

text \<open>The digits \<open>D\<close> with the decimal point \<open>p\<close> places from the right end.\<close>

definition fmtF :: "int \<Rightarrow> int \<Rightarrow> string" where
  "fmtF D p =
     (if p \<ge> 0 then decimal D @ replicate (nat p) CHR ''0''
      else let n = nat (- p); ds = decimal D;
               ds' = replicate (Suc n - length ds) CHR ''0'' @ ds
           in take (length ds' - n) ds' @ ''.'' @ drop (length ds' - n) ds')"

definition FormatFloat :: "f64 \<Rightarrow> string" where
  "FormatFloat f =
     (case f of
        NaN \<Rightarrow> ''NaN''
      | Inf neg \<Rightarrow> (if neg then ''-Inf'' else ''+Inf'')
      | Finite m e \<Rightarrow>
          (if m = 0 then ''0''
           else let (D, p) = shortest_decimal \<bar>m\<bar> e
                in (if m < 0 then ''-'' else []) @ fmtF D p))"

subsection \<open>Go values, JSON documents, decoded values\<close>

text \<open>
  The values a caller can hand to \<^verbatim>\<open>Param\<close> and \<^verbatim>\<open>ParamStruct\<close>, as far as
  \<^verbatim>\<open>json.Marshal\<close> tells them apart. A struct is the list of its exported fields under
  their JSON names; \<open>GoChan\<close> stands for the kinds \<^verbatim>\<open>json.Marshal\<close> rejects (channels,
  functions, complex numbers). Strings are taken to be valid UTF-8, the JSON names of
  the fields of a struct to be distinct, and a float is not the negative zero.
\<close>

datatype govalue =
    GoNil
  | GoBool bool
  | GoString string
  | GoInt int
  | GoFloat f64
  | GoSlice "govalue list"
  | GoMap "(string \<times> govalue) list"
  | GoStruct "(string \<times> govalue) list"
  | GoChan

text \<open>
  A JSON document. A number literal is either the decimal digits of an integer or the
  shortest decimal text of a float64 (which reads back as that float64).
\<close>

datatype numlit = IntLit int | FloatLit f64

datatype json =
    JNull
  | JBool bool
  | JNum numlit
  | JStr string
  | JArr "json list"
  | JObj "(string \<times> json) list"

text \<open>
  The dynamic values \<^verbatim>\<open>changeMapToURLValues\<close> switches on. \<^verbatim>\<open>json.Unmarshal\<close>
  into an \<^verbatim>\<open>interface{}\<close> produces only \<open>VNil\<close>, \<open>VBool\<close>, \<open>VFloat64\<close>,
  \<open>VString\<close>, \<open>VIfaces\<close> and \<open>VMap\<close>; the other constructors are the
  remaining types the switch names.
\<close>

datatype dyn =
    VNil
  | VString string
  | VBool bool
  | VNumber string
  | VInt int
  | VFloat64 f64
  | VFloat32 f64
  | VStrings "string list"
  | VInts "int list"
  | VBools "bool list"
  | VFloat64s "f64 list"
  | VFloat32s "f64 list"
  | VIfaces "dyn list"
  | VMap "(string \<times> dyn) list"

subsection \<open>encoding/json, as toMap uses it\<close>

text \<open>
  \<^verbatim>\<open>json.Marshal\<close>: the first unsupported value aborts the whole encoding. Map keys
  are emitted in sorted order.
\<close>

fun json_Marshal :: "govalue \<Rightarrow> error + json"
  and marshal_list :: "govalue list \<Rightarrow> error + json list"
  and marshal_fields :: "(string \<times> govalue) list \<Rightarrow> error + (string \<times> json) list" where
  "json_Marshal GoNil = Inr JNull"
| "json_Marshal (GoBool b) = Inr (JBool b)"
| "json_Marshal (GoString s) = Inr (JStr s)"
| "json_Marshal (GoInt n) = Inr (JNum (IntLit n))"
| "json_Marshal (GoFloat f) =
     (case f of Finite m e \<Rightarrow> Inr (JNum (FloatLit f)) | _ \<Rightarrow> Inl UnsupportedValueError)"
| "json_Marshal (GoSlice xs) =
     (case marshal_list xs of Inl e \<Rightarrow> Inl e | Inr js \<Rightarrow> Inr (JArr js))"
| "json_Marshal (GoMap kvs) =
     (case marshal_fields kvs of Inl e \<Rightarrow> Inl e
      | Inr fs \<Rightarrow> Inr (JObj (sort_key fst fs)))"
| "json_Marshal (GoStruct kvs) =
     (case marshal_fields kvs of Inl e \<Rightarrow> Inl e | Inr fs \<Rightarrow> Inr (JObj fs))"
| "json_Marshal GoChan = Inl UnsupportedTypeError"
| "marshal_list [] = Inr []"
| "marshal_list (x # xs) =
     (case json_Marshal x of Inl e \<Rightarrow> Inl e
      | Inr j \<Rightarrow> (case marshal_list xs of Inl e \<Rightarrow> Inl e | Inr js \<Rightarrow> Inr (j # js)))"
| "marshal_fields [] = Inr []"
| "marshal_fields ((k, x) # kvs) =
     (case json_Marshal x of Inl e \<Rightarrow> Inl e
      | Inr j \<Rightarrow> (case marshal_fields kvs of Inl e \<Rightarrow> Inl e | Inr fs \<Rightarrow> Inr ((k, j) # fs)))"

text \<open>
  Assigning into a Go map: an existing key keeps its place and takes the new value, a
  new key is added. The association list stands for the map, its order for one of the
  iteration orders Go may choose.
\<close>

definition assign :: "(string \<times> 'a) list \<Rightarrow> (string \<times> 'a) \<Rightarrow> (string \<times> 'a) list" where
  "assign m kv = AList.update (fst kv) (snd kv) m"

text \<open>
  \<^verbatim>\<open>json.Unmarshal\<close> into an \<^verbatim>\<open>interface{}\<close>: every number becomes a float64
  (no \<^verbatim>\<open>UseNumber\<close>), every array a \<^verbatim>\<open>[]interface{}\<close>, every object a map.
\<close>

fun decode_iface :: "json \<Rightarrow> dyn"
  and decode_members :: "(string \<times> json) list \<Rightarrow> (string \<times> dyn) list" where
  "decode_iface JNull = VNil"
| "decode_iface (JBool b) = VBool b"
| "decode_iface (JNum l) = VFloat64 (case l of IntLit n \<Rightarrow> f64_of_int n | FloatLit f \<Rightarrow> f)"
| "decode_iface (JStr s) = VString s"
| "decode_iface (JArr js) = VIfaces (map decode_iface js)"
| "decode_iface (JObj fs) = VMap (foldl assign [] (decode_members fs))"
| "decode_members [] = []"
| "decode_members ((k, j) # fs) = (k, decode_iface j) # decode_members fs"

text \<open>
  \<^verbatim>\<open>json.Unmarshal(content, &val)\<close> with \<^verbatim>\<open>val\<close> a nil
  \<^verbatim>\<open>map[string]interface{}\<close>: \<^verbatim>\<open>null\<close> leaves the map nil (no entries), an
  object fills it, anything else is a type error.
\<close>

fun json_Unmarshal_map :: "json \<Rightarrow> error + (string \<times> dyn) list" where
  "json_Unmarshal_map JNull = Inr []"
| "json_Unmarshal_map (JObj fs) = Inr (foldl assign [] (decode_members fs))"
| "json_Unmarshal_map _ = Inl UnmarshalTypeError"

subsection \<open>toMap\<close>

fun toMap_loop :: "(string \<times> dyn) list \<Rightarrow> govalue list \<Rightarrow> error + (string \<times> dyn) list" where
  "toMap_loop jsonValues [] = Inr jsonValues"
| "toMap_loop jsonValues (data # params) =
     (case json_Marshal data of
        Inl err \<Rightarrow> Inl err
      | Inr content \<Rightarrow>
          (case json_Unmarshal_map content of
             Inl err \<Rightarrow> Inl err
           | Inr val \<Rightarrow> toMap_loop (foldl assign jsonValues val) params))"

definition toMap :: "govalue list \<Rightarrow> error + (string \<times> dyn) list" where
  "toMap params = toMap_loop [] params"

text \<open>What one parameter source contributes: the map it decodes to.\<close>

definition source_map :: "govalue \<Rightarrow> error + (string \<times> dyn) list" where
  "source_map data =
     (case json_Marshal data of Inl err \<Rightarrow> Inl err | Inr content \<Rightarrow> json_Unmarshal_map content)"

subsection \<open>net/url: query values\<close>

text \<open>
  \<^verbatim>\<open>url.QueryEscape\<close>: letters, digits and \<^verbatim>\<open>-_.~\<close> stay, a space becomes
  \<^verbatim>\<open>+\<close>, every other byte its \<^verbatim>\<open>%XX\<close> form in upper-case hexadecimal.
\<close>

definition shouldEscape :: "char \<Rightarrow> bool" where
  "shouldEscape c =
     (c \<notin> set ''abcdefghijklmnopqrstuvwxyzABCDEFGHIJKLMNOPQRSTUVWXYZ0123456789-_.~'')"

definition escape_byte :: "char \<Rightarrow> string" where
  "escape_byte c =
     (if \<not> shouldEscape c then [c]
      else if c = CHR '' '' then ''+''
      else [CHR ''%'', ''0123456789ABCDEF'' ! ((of_char c :: nat) div 16),
            ''0123456789ABCDEF'' ! ((of_char c :: nat) mod 16)])"

definition QueryEscape :: "string \<Rightarrow> string" where
  "QueryEscape s = concat (map escape_byte s)"

text \<open>
  \<^verbatim>\<open>url.Values\<close> is a \<^verbatim>\<open>map[string][]string\<close>; \<^verbatim>\<open>Add\<close> appends to the
  values of the key.
\<close>

type_synonym url_values = "(string \<times> string list) list"

definition Values_Add :: "url_values \<Rightarrow> string \<Rightarrow> string \<Rightarrow> url_values" where
  "Values_Add v key val =
     assign v (key, (case map_of v key of None \<Rightarrow> [] | Some vs \<Rightarrow> vs) @ [val])"

text \<open>
  \<^verbatim>\<open>Values.Encode\<close>: keys in sorted order, one \<^verbatim>\<open>key=value\<close> for each value of
  the key in its order, joined by \<^verbatim>\<open>&\<close>.
\<close>

fun join_amp :: "string list \<Rightarrow> string" where
  "join_amp [] = []"
| "join_amp [x] = x"
| "join_amp (x # y # ys) = x @ ''&'' @ join_amp (y # ys)"

definition Values_Encode :: "url_values \<Rightarrow> string" where
  "Values_Encode v =
     join_amp (concat (map (\<lambda>k. map (\<lambda>val. QueryEscape k @ ''='' @ QueryEscape val)
                                   (case map_of v k of None \<Rightarrow> [] | Some vs \<Rightarrow> vs))
                           (sort (map fst v))))"






definition cut :: "char \<Rightarrow> string \<Rightarrow> string \<times> string" where
  "cut c s = (takeWhile (\<lambda>x. x \<noteq> c) s, drop 1 (dropWhile (\<lambda>x. x \<noteq> c) s))"

fun split_on :: "char \<Rightarrow> string \<Rightarrow> string list" where
  "split_on c [] = [[]]"
| "split_on c (x # xs) =
     (if x = c then [] # split_on c xs
      else case split_on c xs of [] \<Rightarrow> [[x]] | w # ws \<Rightarrow> (x # w) # ws)"



subsection \<open>changeMapToURLValues\<close>

text \<open>
  The loops over a \<^verbatim>\<open>[]interface{}\<close>: each element is type-asserted
  (\<^verbatim>\<open>element.(string)\<close>), and an assertion on a value of another type panics.
\<close>

fun add_strings :: "url_values \<Rightarrow> string \<Rightarrow> dyn list \<Rightarrow> url_values run" where
  "add_strings v k [] = Returns v"
| "add_strings v k (element # rest) =
     (case element of
        VString x \<Rightarrow> add_strings (Values_Add v k x) k rest
      | _ \<Rightarrow> Panics TypeAssertion)"

fun add_bools :: "url_values \<Rightarrow> string \<Rightarrow> dyn list \<Rightarrow> url_values run" where
  "add_bools v k [] = Returns v"
| "add_bools v k (element # rest) =
     (case element of
        VBool x \<Rightarrow> add_bools (Values_Add v k (FormatBool x)) k rest
      | _ \<Rightarrow> Panics TypeAssertion)"

fun add_numbers :: "url_values \<Rightarrow> string \<Rightarrow> dyn list \<Rightarrow> url_values run" where
  "add_numbers v k [] = Returns v"
| "add_numbers v k (element # rest) =
     (case element of
        VNumber x \<Rightarrow> add_numbers (Values_Add v k x) k rest
      | _ \<Rightarrow> Panics TypeAssertion)"

text \<open>The type switch on one entry of the map, in the order of the source.\<close>

fun add_value :: "url_values \<Rightarrow> string \<Rightarrow> dyn \<Rightarrow> url_values run" where
  "add_value v k (VString val) = Returns (Values_Add v k val)"
| "add_value v k (VBool val) = Returns (Values_Add v k (FormatBool val))"
| "add_value v k (VNumber val) = Returns (Values_Add v k val)"
| "add_value v k (VInt val) = Returns (Values_Add v k (FormatInt val))"
| "add_value v k (VFloat64 val) = Returns (Values_Add v k (FormatFloat val))"
| "add_value v k (VFloat32 val) = Returns (Values_Add v k (FormatFloat val))"
| "add_value v k (VStrings val) = Returns (foldl (\<lambda>v element. Values_Add v k element) v val)"
| "add_value v k (VInts val) =
     Returns (foldl (\<lambda>v element. Values_Add v k (FormatInt element)) v val)"
| "add_value v k (VBools val) =
     Returns (foldl (\<lambda>v element. Values_Add v k (FormatBool element)) v val)"
| "add_value v k (VFloat64s val) =
     Returns (foldl (\<lambda>v element. Values_Add v k (FormatFloat element)) v val)"
| "add_value v k (VFloat32s val) =
     Returns (foldl (\<lambda>v element. Values_Add v k (FormatFloat element)) v val)"
| "add_value v k (VIfaces val) =
     (case val of
        [] \<Rightarrow> Returns v
      | first # _ \<Rightarrow>
          (case first of
             VString _ \<Rightarrow> add_strings v k val
           | VBool _ \<Rightarrow> add_bools v k val
           | VNumber _ \<Rightarrow> add_numbers v k val
           | _ \<Rightarrow> Returns v))"
| "add_value v k _ = Returns v"

fun changeMap_loop :: "url_values \<Rightarrow> (string \<times> dyn) list \<Rightarrow> url_values run" where
  "changeMap_loop newUrlValues [] = Returns newUrlValues"
| "changeMap_loop newUrlValues ((k, v) # data) =
     (case add_value newUrlValues k v of
        Panics p \<Rightarrow> Panics p
      | Returns newUrlValues' \<Rightarrow> changeMap_loop newUrlValues' data)"

definition changeMapToURLValues :: "(string \<times> dyn) list \<Rightarrow> url_values run" where
  "changeMapToURLValues data = changeMap_loop [] data"

subsection \<open>The standard library the builder calls\<close>

text \<open>The fields of \<^verbatim>\<open>url.URL\<close>.\<close>

record url =
  url_Scheme :: string
  url_Opaque :: string
  url_User :: "string option"
  url_Host :: string
  url_Path :: string
  url_RawPath :: string
  url_ForceQuery :: bool
  url_RawQuery :: string
  url_Fragment :: string
  url_RawFragment :: string

text \<open>
  An \<^verbatim>\<open>http.Request\<close>: method, parsed URL, header and body. The body is what a
  reader of it reads in full; \<open>None\<close> is the nil body.
\<close>

record request =
  req_Method :: string
  req_URL :: url
  req_Header :: url_values
  req_Body :: "string option"

text \<open>
  An \<^verbatim>\<open>http.Response\<close>: the status code, and what \<^verbatim>\<open>ioutil.ReadAll\<close> of its
  body returns.
\<close>

record response =
  resp_StatusCode :: int
  resp_Body :: "error + string"

text \<open>The interface \<^verbatim>\<open>Doer\<close>: its one method \<^verbatim>\<open>Do\<close>.\<close>

type_synonym doer = "request \<Rightarrow> error + response"

text \<open>
  Library functions that stay parameters: URL parsing, printing and reference
  resolution, the canonical form of a header key, base64, the JSON text of the merged
  map, decoding a response body into a destination of type \<open>'d\<close> (which may be
  written to even when decoding fails), and the default HTTP client.
\<close>

record 'd lib =
  url_Parse :: "string \<Rightarrow> error + url"
  url_String :: "url \<Rightarrow> string"
  url_ResolveReference :: "url \<Rightarrow> url \<Rightarrow> url"
  CanonicalHeaderKey :: "string \<Rightarrow> string"
  base64_EncodeToString :: "string \<Rightarrow> string"
  json_Marshal_map :: "(string \<times> dyn) list \<Rightarrow> error + string"
  json_Unmarshal :: "string \<Rightarrow> 'd \<Rightarrow> 'd \<times> error option"
  http_DefaultClient :: doer

text \<open>
  \<^verbatim>\<open>http.NewRequest\<close>: the method must be a token, the URL must parse, an empty
  port is removed from the host.
\<close>

definition validMethod :: "string \<Rightarrow> bool" where
  "validMethod m =
     (m \<noteq> [] \<and> (\<forall>c \<in> set m. c \<in> set
        ''abcdefghijklmnopqrstuvwxyzABCDEFGHIJKLMNOPQRSTUVWXYZ0123456789!#$%&*+-.^_|~''
          \<or> c = CHR 0x27 \<or> c = CHR 0x60))"

definition removeEmptyPort :: "string \<Rightarrow> string" where
  "removeEmptyPort host =
     (if host \<noteq> [] \<and> last host = CHR '':'' then butlast host else host)"

definition http_NewRequest :: "'d lib \<Rightarrow> string \<Rightarrow> string \<Rightarrow> string option \<Rightarrow> error + request" where
  "http_NewRequest L m urlStr body =
     (let m = (if m = [] then ''GET'' else m) in
      if \<not> validMethod m then Inl (NewRequestError m)
      else case url_Parse L urlStr of
             Inl err \<Rightarrow> Inl err
           | Inr u \<Rightarrow>
               Inr \<lparr>req_Method = m, req_URL = u\<lparr>url_Host := removeEmptyPort (url_Host u)\<rparr>,
                    req_Header = [], req_Body = body\<rparr>)"

subsection \<open>Slices of strings\<close>

text \<open>
  The values of a header key are a \<^verbatim>\<open>[]string\<close>: a reference to a backing array
  with a length and a capacity. Copying the slice copies the reference, so the backing
  arrays live in a heap, addressed by position. \<^verbatim>\<open>append\<close> writes in place when
  the capacity allows and moves to a new array of doubled capacity otherwise (the
  growth of the Go runtime for capacities below 256).
\<close>

record slice =
  sl_array :: nat
  sl_len :: nat
  sl_cap :: nat

type_synonym heap = "string list list"

definition nil_slice :: slice where
  "nil_slice = \<lparr>sl_array = 0, sl_len = 0, sl_cap = 0\<rparr>"

definition elems :: "heap \<Rightarrow> slice \<Rightarrow> string list" where
  "elems h s = (if sl_len s = 0 then [] else take (sl_len s) (h ! sl_array s))"

definition growcap :: "nat \<Rightarrow> nat \<Rightarrow> nat" where
  "growcap old need = (if 2 * old < need then need else 2 * old)"

definition go_append :: "heap \<Rightarrow> slice \<Rightarrow> string \<Rightarrow> heap \<times> slice" where
  "go_append h s x =
     (if sl_len s < sl_cap s
      then (h[sl_array s := (h ! sl_array s)[sl_len s := x]], s\<lparr>sl_len := sl_len s + 1\<rparr>)
      else let c = growcap (sl_cap s) (sl_len s + 1)
           in (h @ [elems h s @ [x] @ replicate (c - sl_len s - 1) []],
               \<lparr>sl_array = length h, sl_len = sl_len s + 1, sl_cap = c\<rparr>))"

text \<open>
  \<^verbatim>\<open>http.Header\<close> is a \<^verbatim>\<open>map[string][]string\<close>. \<^verbatim>\<open>Add\<close> appends to the
  slice of the canonical key, \<^verbatim>\<open>Set\<close> stores a new slice of one element.
\<close>

type_synonym header = "(string \<times> slice) list"

definition Header_Add :: "'d lib \<Rightarrow> heap \<Rightarrow> header \<Rightarrow> string \<Rightarrow> string \<Rightarrow> heap \<times> header" where
  "Header_Add L h hdr key val =
     (let k = CanonicalHeaderKey L key;
          (h', s') = go_append h (case map_of hdr k of None \<Rightarrow> nil_slice | Some s \<Rightarrow> s) val
      in (h', assign hdr (k, s')))"

definition Header_Set :: "'d lib \<Rightarrow> heap \<Rightarrow> header \<Rightarrow> string \<Rightarrow> string \<Rightarrow> heap \<times> header" where
  "Header_Set L h hdr key val =
     (h @ [[val]],
      assign hdr (CanonicalHeaderKey L key, \<lparr>sl_array = length h, sl_len = 1, sl_cap = 1\<rparr>))"

text \<open>What a reader of the header sees under a key.\<close>

definition Header_Values :: "heap \<Rightarrow> header \<Rightarrow> string \<Rightarrow> string list" where
  "Header_Values h hdr k = (case map_of hdr k of None \<Rightarrow> [] | Some s \<Rightarrow> elems h s)"

subsection \<open>formSting\<close>

definition formSting :: "govalue list \<Rightarrow> (error + string) run" where
  "formSting params =
     (case toMap params of
        Inl err \<Rightarrow> Returns (Inl err)
      | Inr vals \<Rightarrow>
          (case changeMapToURLValues vals of
             Panics p \<Rightarrow> Panics p
           | Returns v \<Rightarrow> Returns (Inr (Values_Encode v))))"

subsection \<open>jsonSting\<close>

definition jsonSting :: "'d lib \<Rightarrow> govalue list \<Rightarrow> (error + string) run" where
  "jsonSting L params =
     (case toMap params of
        Inl err \<Rightarrow> Returns (Inl err)
      | Inr vals \<Rightarrow>
          (case json_Marshal_map L vals of
             Inl err \<Rightarrow> Returns (Inl err)
           | Inr d \<Rightarrow> Returns (Inr d)))"

subsection \<open>RestClient\<close>

text \<open>
  The field \<^verbatim>\<open>serialize\<close> holds a function value: one of the two serializers, or
  nil. The field \<^verbatim>\<open>data\<close> is a list: no two builders ever share the backing array
  of their \<^verbatim>\<open>data\<close> slice (the package-level constructor makes a new one, the
  copy constructor appends to an empty literal).
\<close>

datatype serializer = FnFormSting | FnJsonSting

record RestClient =
  httpClient :: doer
  "method" :: string
  rawURL :: string
  header :: header
  data :: "govalue list"
  serialize :: "serializer option"

text \<open>The package-level \<^verbatim>\<open>New\<close>.\<close>

definition New :: "'d lib \<Rightarrow> RestClient" where
  "New L =
     \<lparr>httpClient = http_DefaultClient L, method = ''GET'', rawURL = [], header = [],
      data = [], serialize = Some FnFormSting\<rparr>"

text \<open>
  The method \<^verbatim>\<open>New\<close> of a builder: the loop stores every slice of the header
  under its key in a new map; the composite literal names no \<^verbatim>\<open>serialize\<close>.
\<close>

definition RestClient_New :: "RestClient \<Rightarrow> RestClient" where
  "RestClient_New s =
     (let headerCopy = foldl assign [] (header s)
      in \<lparr>httpClient = httpClient s, method = method s, rawURL = rawURL s,
          header = headerCopy, data = [] @ data s, serialize = None\<rparr>)"

definition JSON :: "RestClient \<Rightarrow> RestClient" where
  "JSON s = s\<lparr>serialize := Some FnJsonSting\<rparr>"

definition FORM :: "RestClient \<Rightarrow> RestClient" where
  "FORM s = s\<lparr>serialize := Some FnFormSting\<rparr>"

definition Doer :: "'d lib \<Rightarrow> RestClient \<Rightarrow> doer option \<Rightarrow> RestClient" where
  "Doer L s doer =
     (case doer of
        None \<Rightarrow> s\<lparr>httpClient := http_DefaultClient L\<rparr>
      | Some d \<Rightarrow> s\<lparr>httpClient := d\<rparr>)"

definition Client :: "'d lib \<Rightarrow> RestClient \<Rightarrow> doer option \<Rightarrow> RestClient" where
  "Client L s c =
     (case c of
        None \<Rightarrow> Doer L s (Some (http_DefaultClient L))
      | Some d \<Rightarrow> Doer L s (Some d))"

definition Base :: "RestClient \<Rightarrow> string \<Rightarrow> RestClient" where
  "Base s raw = s\<lparr>rawURL := raw\<rparr>"

definition Path :: "'d lib \<Rightarrow> RestClient \<Rightarrow> string \<Rightarrow> RestClient" where
  "Path L s path =
     (let baseR = url_Parse L (rawURL s); pathR = url_Parse L path
      in case (baseR, pathR) of
           (Inr baseURL, Inr pathURL) \<Rightarrow>
             s\<lparr>rawURL := url_String L (url_ResolveReference L baseURL pathURL)\<rparr>
         | _ \<Rightarrow> s)"



definition Post :: "'d lib \<Rightarrow> RestClient \<Rightarrow> string \<Rightarrow> RestClient" where
  "Post L s pathURL = Path L (s\<lparr>method := ''POST''\<rparr>) pathURL"

definition Put :: "'d lib \<Rightarrow> RestClient \<Rightarrow> string \<Rightarrow> RestClient" where
  "Put L s pathURL = Path L (s\<lparr>method := ''PUT''\<rparr>) pathURL"

definition Patch :: "'d lib \<Rightarrow> RestClient \<Rightarrow> string \<Rightarrow> RestClient" where
  "Patch L s pathURL = Path L (s\<lparr>method := ''PATCH''\<rparr>) pathURL"

definition Delete :: "'d lib \<Rightarrow> RestClient \<Rightarrow> string \<Rightarrow> RestClient" where
  "Delete L s pathURL = Path L (s\<lparr>method := ''DELETE''\<rparr>) pathURL"

text \<open>The header methods write to the heap of backing arrays.\<close>

definition Add :: "'d lib \<Rightarrow> heap \<times> RestClient \<Rightarrow> string \<Rightarrow> string \<Rightarrow> heap \<times> RestClient" where
  "Add L hs key val =
     (let (h, s) = hs; (h', hdr) = Header_Add L h (header s) key val
      in (h', s\<lparr>header := hdr\<rparr>))"

definition Set :: "'d lib \<Rightarrow> heap \<times> RestClient \<Rightarrow> string \<Rightarrow> string \<Rightarrow> heap \<times> RestClient" where
  "Set L hs key val =
     (let (h, s) = hs; (h', hdr) = Header_Set L h (header s) key val
      in (h', s\<lparr>header := hdr\<rparr>))"

definition basicAuth :: "'d lib \<Rightarrow> string \<Rightarrow> string \<Rightarrow> string" where
  "basicAuth L username password =
     (let auth = username @ '':'' @ password in base64_EncodeToString L auth)"

definition SetBasicAuth :: "'d lib \<Rightarrow> heap \<times> RestClient \<Rightarrow> string \<Rightarrow> string \<Rightarrow> heap \<times> RestClient" where
  "SetBasicAuth L hs username password =
     Set L hs ''Authorization'' (''Basic '' @ basicAuth L username password)"

text \<open>\<open>None\<close> is the nil interface, which \<^verbatim>\<open>ParamStruct\<close> skips.\<close>

definition ParamStruct :: "RestClient \<Rightarrow> govalue option \<Rightarrow> RestClient" where
  "ParamStruct s d = (case d of None \<Rightarrow> s | Some x \<Rightarrow> s\<lparr>data := data s @ [x]\<rparr>)"

definition Param :: "RestClient \<Rightarrow> string \<Rightarrow> govalue \<Rightarrow> RestClient" where
  "Param s key val = s\<lparr>data := data s @ [GoMap [(key, val)]]\<rparr>"

subsection \<open>Request\<close>

text \<open>Calling the function value in \<^verbatim>\<open>serialize\<close>; calling nil panics.\<close>

definition call_serialize :: "'d lib \<Rightarrow> serializer option \<Rightarrow> govalue list \<Rightarrow> (error + string) run" where
  "call_serialize L f params =
     (case f of
        None \<Rightarrow> Panics NilFuncCall
      | Some FnFormSting \<Rightarrow> formSting params
      | Some FnJsonSting \<Rightarrow> jsonSting L params)"

definition addHeaders :: "'d lib \<Rightarrow> heap \<Rightarrow> request \<Rightarrow> header \<Rightarrow> request" where
  "addHeaders L h req hdr =
     foldl (\<lambda>req (key, vals).
              foldl (\<lambda>req val.
                       req\<lparr>req_Header := Values_Add (req_Header req) (CanonicalHeaderKey L key) val\<rparr>)
                    req (elems h vals))
           req hdr"

definition Request :: "'d lib \<Rightarrow> heap \<Rightarrow> RestClient \<Rightarrow> (error + request) run" where
  "Request L h s =
     (case url_Parse L (rawURL s) of
        Inl err \<Rightarrow> Returns (Inl err)
      | Inr reqURL \<Rightarrow>
          if method s = ''GET'' then
            (case call_serialize L (serialize s) (data s) of
               Panics p \<Rightarrow> Panics p
             | Returns (Inl err) \<Rightarrow> Returns (Inl err)
             | Returns (Inr str) \<Rightarrow>
                 (case http_NewRequest L (method s)
                         (url_String L (reqURL\<lparr>url_RawQuery := str\<rparr>)) None of
                    Inl err \<Rightarrow> Returns (Inl err)
                  | Inr req \<Rightarrow> Returns (Inr (addHeaders L h req (header s)))))
          else if method s \<in> set [''HEAD'', ''POST'', ''PUT'', ''PATCH'', ''DELETE''] then
            (case call_serialize L (serialize s) (data s) of
               Panics p \<Rightarrow> Panics p
             | Returns (Inl err) \<Rightarrow> Returns (Inl err)
             | Returns (Inr str) \<Rightarrow>
                 (case http_NewRequest L (method s) (url_String L reqURL) (Some str) of
                    Inl err \<Rightarrow> Returns (Inl err)
                  | Inr req \<Rightarrow> Returns (Inr (addHeaders L h req (header s)))))
          else Returns (Inl (UnknownMethod (method s))))"

subsection \<open>Receive\<close>

text \<open>
  A pointer argument is nil or points to a cell with a content. \<^verbatim>\<open>Receive\<close>
  returns its error together with what it leaves in the destination and in the
  status-code cells.
\<close>

datatype 'a ptr = NilPtr | Ptr 'a

record 'd received =
  recv_err :: "error option"
  recv_value :: "'d option"
  recv_statusCode :: "int ptr list"

fun store_status :: "int ptr list \<Rightarrow> int \<Rightarrow> int ptr list option" where
  "store_status [] code = Some []"
| "store_status (NilPtr # rest) code = None"
| "store_status (Ptr _ # rest) code = Some (Ptr code # rest)"

definition Receive :: "'d lib \<Rightarrow> heap \<Rightarrow> RestClient \<Rightarrow> 'd option \<Rightarrow> int ptr list \<Rightarrow> 'd received run" where
  "Receive L h s val statusCode =
     (case Request L h s of
        Panics p \<Rightarrow> Panics p
      | Returns (Inl err) \<Rightarrow>
          Returns \<lparr>recv_err = Some err, recv_value = val, recv_statusCode = statusCode\<rparr>
      | Returns (Inr req) \<Rightarrow>
          (case httpClient s req of
             Inl err \<Rightarrow>
               Returns \<lparr>recv_err = Some err, recv_value = val, recv_statusCode = statusCode\<rparr>
           | Inr resp \<Rightarrow>
               (case store_status statusCode (resp_StatusCode resp) of
                  None \<Rightarrow> Panics NilDereference
                | Some statusCode' \<Rightarrow>
                    (case resp_Body resp of
                       Inl err \<Rightarrow>
                         Returns \<lparr>recv_err = Some err, recv_value = val,
                                  recv_statusCode = statusCode'\<rparr>
                     | Inr body \<Rightarrow>
                         if resp_StatusCode resp \<noteq> 200 then
                           Returns \<lparr>recv_err = Some (ApiError body), recv_value = val,
                                    recv_statusCode = statusCode'\<rparr>
                         else
                           (case val of
                              None \<Rightarrow>
                                Returns \<lparr>recv_err = None, recv_value = None,
                                         recv_statusCode = statusCode'\<rparr>
                            | Some d \<Rightarrow>
                                (case json_Unmarshal L body d of
                                   (d', Some err) \<Rightarrow>
                                     Returns \<lparr>recv_err = Some (ParseBodyError err body),
                                              recv_value = Some d',
                                              recv_statusCode = statusCode'\<rparr>
                                 | (d', None) \<Rightarrow>
                                     Returns \<lparr>recv_err = None, recv_value = Some d',
                                              recv_statusCode = statusCode'\<rparr>))))))"

text \<open>
  The second source file holds another \<^verbatim>\<open>Receive\<close>, which counts every status
  from 200 to 299 as a success. Its \<^verbatim>\<open>Request\<close> encodes query structs and asks a
  body provider, both outside the given sources, so the outcome of \<^verbatim>\<open>s.Request()\<close>
  is an argument here. On a failure status it hands its variadic \<^verbatim>\<open>result\<close>, a
  slice and not a pointer, to \<^verbatim>\<open>json.Unmarshal\<close> and drops the error: nothing is
  written.
\<close>

definition Receive_part_000 :: "'d lib \<Rightarrow> (error + request) run \<Rightarrow> doer \<Rightarrow> 'd option \<Rightarrow> 'd received run" where
  "Receive_part_000 L request doer val =
     (case request of
        Panics p \<Rightarrow> Panics p
      | Returns (Inl err) \<Rightarrow>
          Returns \<lparr>recv_err = Some err, recv_value = val, recv_statusCode = []\<rparr>
      | Returns (Inr req) \<Rightarrow>
          (case doer req of
             Inl err \<Rightarrow> Returns \<lparr>recv_err = Some err, recv_value = val, recv_statusCode = []\<rparr>
           | Inr resp \<Rightarrow>
               (case resp_Body resp of
                  Inl err \<Rightarrow>
                    Returns \<lparr>recv_err = Some err, recv_value = val, recv_statusCode = []\<rparr>
                | Inr body \<Rightarrow>
                    if resp_StatusCode resp < 200 \<or> resp_StatusCode resp > 299 then
                      Returns \<lparr>recv_err = Some (ApiError body), recv_value = val,
                               recv_statusCode = []\<rparr>
                    else
                      (case val of
                         None \<Rightarrow>
                           Returns \<lparr>recv_err = None, recv_value = None, recv_statusCode = []\<rparr>
                       | Some d \<Rightarrow>
                           (case json_Unmarshal L body d of
                              (d', Some err) \<Rightarrow>
                                Returns \<lparr>recv_err = Some (ParseBodyError err body),
                                         recv_value = Some d', recv_statusCode = []\<rparr>
                            | (d', None) \<Rightarrow>
                                Returns \<lparr>recv_err = None, recv_value = Some d',
                                         recv_statusCode = []\<rparr>)))))"

section \<open>A library for running the builder\<close>

text \<open>
  The theorems below hold for every library. To run the builder on concrete inputs
  the parameters need values; this section supplies them, each on a small domain.
\<close>

subsection \<open>References made of a path, a query and a fragment\<close>

text \<open>
  \<^verbatim>\<open>url.Parse\<close> on references without scheme and authority whose path is empty or
  starts with one slash and consists of letters, digits, \<^verbatim>\<open>-_~/\<close>, and whose
  fragment consists of letters and digits. A control character is the error of
  \<^verbatim>\<open>net/url\<close>; any other input outside this domain is rejected here.
\<close>

definition isCTL :: "char \<Rightarrow> bool" where
  "isCTL c = ((of_char c :: nat) < 0x20 \<or> (of_char c :: nat) = 0x7f)"

definition plain_path :: "string \<Rightarrow> bool" where
  "plain_path p =
     ((\<forall>c \<in> set p. c \<in> set
         ''abcdefghijklmnopqrstuvwxyzABCDEFGHIJKLMNOPQRSTUVWXYZ0123456789-_~/'')
      \<and> (p = [] \<or> hd p = CHR ''/'') \<and> take 2 p \<noteq> ''//'')"

definition plain_fragment :: "string \<Rightarrow> bool" where
  "plain_fragment f =
     (\<forall>c \<in> set f. c \<in> set
         ''abcdefghijklmnopqrstuvwxyzABCDEFGHIJKLMNOPQRSTUVWXYZ0123456789'')"

definition ref_Parse :: "string \<Rightarrow> error + url" where
  "ref_Parse raw =
     (if \<exists>c \<in> set raw. isCTL c then Inl (UrlError ''invalid control character in URL'')
      else let (u, frag) = cut CHR ''#'' raw;
               force = (u \<noteq> [] \<and> last u = CHR ''?'' \<and> count_list u CHR ''?'' = 1);
               (rest, query) = (if force then (butlast u, []) else cut CHR ''?'' u)
           in if plain_path rest \<and> plain_fragment frag
              then Inr \<lparr>url_Scheme = [], url_Opaque = [], url_User = None, url_Host = [],
                        url_Path = rest, url_RawPath = [], url_ForceQuery = force,
                        url_RawQuery = query, url_Fragment = frag, url_RawFragment = []\<rparr>
              else Inl (UrlError ''not a plain reference''))"

definition ref_String :: "url \<Rightarrow> string" where
  "ref_String u =
     url_Path u
     @ (if url_ForceQuery u \<or> url_RawQuery u \<noteq> [] then CHR ''?'' # url_RawQuery u else [])
     @ (if url_Fragment u \<noteq> [] then CHR ''#'' # url_Fragment u else [])"

text \<open>
  \<^verbatim>\<open>ResolveReference\<close> for such references: an empty reference path keeps the path
  of the base, any other path replaces it.
\<close>

definition ref_ResolveReference :: "url \<Rightarrow> url \<Rightarrow> url" where
  "ref_ResolveReference u ref =
     (let r = ref\<lparr>url_Scheme := url_Scheme u\<rparr>;
          r = (if url_Path ref = [] \<and> \<not> url_ForceQuery ref \<and> url_RawQuery ref = []
               then (let r = r\<lparr>url_RawQuery := url_RawQuery u\<rparr>
                     in if url_Fragment ref = []
                        then r\<lparr>url_Fragment := url_Fragment u, url_RawFragment := url_RawFragment u\<rparr>
                        else r)
               else r)
      in r\<lparr>url_Host := url_Host u, url_User := url_User u,
           url_Path := (if url_Path ref = [] then url_Path u else url_Path ref),
           url_RawPath := []\<rparr>)"

subsection \<open>Header keys and base64\<close>

text \<open>
  \<^verbatim>\<open>textproto.CanonicalMIMEHeaderKey\<close>: a key of token characters gets an upper-case
  letter at its start and after each hyphen and lower-case letters elsewhere; any other
  key is left as it is.
\<close>

definition isToken :: "char \<Rightarrow> bool" where
  "isToken c =
     (c \<in> set ''abcdefghijklmnopqrstuvwxyzABCDEFGHIJKLMNOPQRSTUVWXYZ0123456789!#$%&*+-.^_|~''
      \<or> c = CHR 0x27 \<or> c = CHR 0x60)"

fun canon_loop :: "bool \<Rightarrow> string \<Rightarrow> string" where
  "canon_loop upper [] = []"
| "canon_loop upper (c # cs) =
     (let n = (of_char c :: nat);
          c' = (if upper \<and> 97 \<le> n \<and> n \<le> 122 then char_of (n - 32)
                else if \<not> upper \<and> 65 \<le> n \<and> n \<le> 90 then char_of (n + 32)
                else c)
      in c' # canon_loop (c' = CHR ''-'') cs)"

definition CanonicalMIMEHeaderKey :: "string \<Rightarrow> string" where
  "CanonicalMIMEHeaderKey k = (if \<forall>c \<in> set k. isToken c then canon_loop True k else k)"

fun base64_bytes :: "nat list \<Rightarrow> string" where
  "base64_bytes [] = []"
| "base64_bytes [a] =
     [''ABCDEFGHIJKLMNOPQRSTUVWXYZabcdefghijklmnopqrstuvwxyz0123456789+/'' ! (a div 4),
      ''ABCDEFGHIJKLMNOPQRSTUVWXYZabcdefghijklmnopqrstuvwxyz0123456789+/'' ! (a mod 4 * 16),
      CHR ''='', CHR ''='']"
| "base64_bytes [a, b] =
     [''ABCDEFGHIJKLMNOPQRSTUVWXYZabcdefghijklmnopqrstuvwxyz0123456789+/'' ! (a div 4),
      ''ABCDEFGHIJKLMNOPQRSTUVWXYZabcdefghijklmnopqrstuvwxyz0123456789+/'' ! (a mod 4 * 16 + b div 16),
      ''ABCDEFGHIJKLMNOPQRSTUVWXYZabcdefghijklmnopqrstuvwxyz0123456789+/'' ! (b mod 16 * 4),
      CHR ''='']"
| "base64_bytes (a # b # c # rest) =
     [''ABCDEFGHIJKLMNOPQRSTUVWXYZabcdefghijklmnopqrstuvwxyz0123456789+/'' ! (a div 4),
      ''ABCDEFGHIJKLMNOPQRSTUVWXYZabcdefghijklmnopqrstuvwxyz0123456789+/'' ! (a mod 4 * 16 + b div 16),
      ''ABCDEFGHIJKLMNOPQRSTUVWXYZabcdefghijklmnopqrstuvwxyz0123456789+/'' ! (b mod 16 * 4 + c div 64),
      ''ABCDEFGHIJKLMNOPQRSTUVWXYZabcdefghijklmnopqrstuvwxyz0123456789+/'' ! (c mod 64)]
     @ base64_bytes rest"

definition StdEncoding_EncodeToString :: "string \<Rightarrow> string" where
  "StdEncoding_EncodeToString s = base64_bytes (map of_char s)"

subsection \<open>JSON text\<close>

text \<open>
  \<^verbatim>\<open>json.Marshal\<close> of the merged map, for maps whose strings need no escape and
  whose numbers are printed without exponent; other maps are rejected here.
\<close>

definition plain_char :: "char \<Rightarrow> bool" where
  "plain_char c =
     (c \<in> set ''abcdefghijklmnopqrstuvwxyzABCDEFGHIJKLMNOPQRSTUVWXYZ0123456789 -_.~/=+*!?'')"

definition quote :: "string \<Rightarrow> string" where
  "quote s = CHR 0x22 # s @ [CHR 0x22]"

definition plain_float :: "f64 \<Rightarrow> bool" where
  "plain_float f =
     (case f of
        Finite m e \<Rightarrow>
          m = 0 \<or> (\<bar>m\<bar> * pw 2 e < 10 ^ 21 * pw 2 (- e) \<and> pw 2 (- e) \<le> \<bar>m\<bar> * pw 2 e * 10 ^ 6)
      | _ \<Rightarrow> False)"

fun join_comma :: "string list \<Rightarrow> string" where
  "join_comma [] = []"
| "join_comma [x] = x"
| "join_comma (x # y # ys) = x @ '','' @ join_comma (y # ys)"

fun dyn_text :: "dyn \<Rightarrow> string option"
  and list_text :: "dyn list \<Rightarrow> string list option"
  and members_text :: "(string \<times> dyn) list \<Rightarrow> (string \<times> string) list option" where
  "dyn_text VNil = Some ''null''"
| "dyn_text (VBool b) = Some (FormatBool b)"
| "dyn_text (VString s) = (if \<forall>c \<in> set s. plain_char c then Some (quote s) else None)"
| "dyn_text (VFloat64 f) = (if plain_float f then Some (FormatFloat f) else None)"
| "dyn_text (VIfaces xs) =
     (case list_text xs of None \<Rightarrow> None | Some ts \<Rightarrow> Some (''['' @ join_comma ts @ '']''))"
| "dyn_text (VMap kvs) =
     (case members_text kvs of
        None \<Rightarrow> None
      | Some ts \<Rightarrow> Some (''{'' @ join_comma (map snd (sort_key fst ts)) @ ''}''))"
| "dyn_text _ = None"
| "list_text [] = Some []"
| "list_text (x # xs) =
     (case dyn_text x of
        None \<Rightarrow> None
      | Some t \<Rightarrow> (case list_text xs of None \<Rightarrow> None | Some ts \<Rightarrow> Some (t # ts)))"
| "members_text [] = Some []"
| "members_text ((k, x) # kvs) =
     (if \<exists>c \<in> set k. \<not> plain_char c then None
      else case dyn_text x of
             None \<Rightarrow> None
           | Some t \<Rightarrow>
               (case members_text kvs of
                  None \<Rightarrow> None
                | Some ts \<Rightarrow> Some ((k, quote k @ '':'' @ t) # ts)))"

definition plain_Marshal_map :: "(string \<times> dyn) list \<Rightarrow> error + string" where
  "plain_Marshal_map vals =
     (case dyn_text (VMap vals) of
        None \<Rightarrow> Inl (MarshalError ''not a plain map'')
      | Some t \<Rightarrow> Inr t)"

text \<open>
  Reading a response body: objects written without white space whose members are
  integers, plain strings, \<^verbatim>\<open>true\<close>, \<^verbatim>\<open>false\<close> or \<^verbatim>\<open>null\<close>; any other
  text counts as a syntax error here.
\<close>

definition read_string :: "string \<Rightarrow> string option" where
  "read_string s =
     (if 2 \<le> length s \<and> hd s = CHR 0x22 \<and> last s = CHR 0x22
         \<and> (\<forall>c \<in> set (butlast (tl s)). plain_char c)
      then Some (butlast (tl s)) else None)"

definition read_nat :: "string \<Rightarrow> int option" where
  "read_nat s =
     (if s \<noteq> [] \<and> (\<forall>c \<in> set s. c \<in> set ''0123456789'') \<and> (hd s \<noteq> CHR ''0'' \<or> length s = 1)
      then Some (foldl (\<lambda>a c. 10 * a + (int (of_char c) - 48)) 0 s) else None)"

definition read_scalar :: "string \<Rightarrow> json option" where
  "read_scalar s =
     (if s = ''null'' then Some JNull
      else if s = ''true'' then Some (JBool True)
      else if s = ''false'' then Some (JBool False)
      else if s \<noteq> [] \<and> hd s = CHR ''-''
      then (case read_nat (tl s) of None \<Rightarrow> None | Some n \<Rightarrow> Some (JNum (IntLit (- n))))
      else case read_nat s of
             Some n \<Rightarrow> Some (JNum (IntLit n))
           | None \<Rightarrow> (case read_string s of None \<Rightarrow> None | Some t \<Rightarrow> Some (JStr t)))"

fun read_members :: "string list \<Rightarrow> (string \<times> json) list option" where
  "read_members [] = Some []"
| "read_members (m # ms) =
     (let (k, v) = cut CHR '':'' m
      in case (read_string k, read_scalar v, read_members ms) of
           (Some k', Some v', Some fs) \<Rightarrow> Some ((k', v') # fs)
         | _ \<Rightarrow> None)"

definition read_object :: "string \<Rightarrow> json option" where
  "read_object s =
     (if 2 \<le> length s \<and> hd s = CHR ''{'' \<and> last s = CHR ''}''
      then (let inner = butlast (tl s)
            in if inner = [] then Some (JObj [])
               else case read_members (split_on CHR '','' inner) of
                      None \<Rightarrow> None
                    | Some fs \<Rightarrow> Some (JObj fs))
      else None)"

text \<open>
  A destination: \<^verbatim>\<open>struct { ID int `json:"id"` }\<close>. Decoding an object sets the
  field from the member \<^verbatim>\<open>id\<close> and ignores the other members; a member of the
  wrong type is reported after the rest has been decoded.
\<close>

record item =
  item_ID :: int

definition decode_item :: "json \<Rightarrow> item \<Rightarrow> item \<times> error option" where
  "decode_item j d =
     (case j of
        JNull \<Rightarrow> (d, None)
      | JObj fs \<Rightarrow>
          foldl (\<lambda>(d, e) (k, v).
                   if k = ''id'' then
                     (case v of
                        JNull \<Rightarrow> (d, e)
                      | JNum (IntLit n) \<Rightarrow>
                          if - (2 ^ 63) \<le> n \<and> n < 2 ^ 63 then (d\<lparr>item_ID := n\<rparr>, e)
                          else (d, (if e = None then Some UnmarshalTypeError else e))
                      | _ \<Rightarrow> (d, (if e = None then Some UnmarshalTypeError else e)))
                   else (d, e))
                (d, None) fs
      | _ \<Rightarrow> (d, Some UnmarshalTypeError))"

definition item_Unmarshal :: "string \<Rightarrow> item \<Rightarrow> item \<times> error option" where
  "item_Unmarshal body d =
     (case read_object body of None \<Rightarrow> (d, Some SyntaxError) | Some j \<Rightarrow> decode_item j d)"

subsection \<open>The library, and an executor that answers with a fixed response\<close>

definition respond :: "int \<Rightarrow> string \<Rightarrow> doer" where
  "respond code body = (\<lambda>req. Inr \<lparr>resp_StatusCode = code, resp_Body = Inr body\<rparr>)"

definition golib :: "doer \<Rightarrow> item lib" where
  "golib d =
     \<lparr>url_Parse = ref_Parse, url_String = ref_String,
      url_ResolveReference = ref_ResolveReference,
      CanonicalHeaderKey = CanonicalMIMEHeaderKey,
      base64_EncodeToString = StdEncoding_EncodeToString,
      json_Marshal_map = plain_Marshal_map,
      json_Unmarshal = item_Unmarshal,
      http_DefaultClient = d\<rparr>"

section \<open>Example inputs\<close>

text \<open>
  Three sources \<^verbatim>\<open>{"a":1,"b":"x"}\<close>, \<^verbatim>\<open>{"a":2}\<close>, \<^verbatim>\<open>{"c":true}\<close>: the
  second is the last to produce \<^verbatim>\<open>a\<close>.
\<close>

definition merge_example :: "govalue list" where
  "merge_example =
     [GoMap [(''a'', GoInt 1), (''b'', GoString ''x'')],
      GoMap [(''a'', GoInt 2)],
      GoStruct [(''c'', GoBool True)]]"

text \<open>Libraries whose executor answers 404, 200 with an object, 200 with a cut-off text.\<close>

definition lib404 :: "item lib" where
  "lib404 = golib (respond 404 ''{\"msg\":\"nope\"}'')"

definition lib200 :: "item lib" where
  "lib200 = golib (respond 200 ''{\"id\":5}'')"

definition lib200cut :: "item lib" where
  "lib200cut = golib (respond 200 ''{\"id\":'')"



text \<open>\<^verbatim>\<open>New().New()\<close>\<close>

definition clone_example :: RestClient where
  "clone_example = RestClient_New (New lib200)"

text \<open>\<^verbatim>\<open>New().Base("/a")\<close> and a path with the control character DEL.\<close>

definition base_example :: RestClient where
  "base_example = Base (New lib200) ''/a''"

definition del_path :: string where
  "del_path = [CHR ''b'', CHR 0x7f]"






text \<open>
  \<^verbatim>\<open>orig := New().Add("A","1").Add("A","2").Add("A","3")\<close>, whose slice under
  \<^verbatim>\<open>A\<close> has length 3 and capacity 4; \<^verbatim>\<open>clone := orig.New()\<close>; then
  \<^verbatim>\<open>orig.Add("A","y")\<close>; then \<^verbatim>\<open>clone.Add("A","x")\<close>.
\<close>

definition shared_start :: "heap \<times> RestClient" where
  "shared_start =
     Add lib200 (Add lib200 (Add lib200 ([], New lib200) ''A'' ''1'') ''A'' ''2'') ''A'' ''3''"

definition shared_clone :: RestClient where
  "shared_clone = RestClient_New (snd shared_start)"

definition original_added :: "heap \<times> RestClient" where
  "original_added = Add lib200 shared_start ''A'' ''y''"

definition clone_added :: "heap \<times> RestClient" where
  "clone_added = Add lib200 (fst original_added, shared_clone) ''A'' ''x''"

text \<open>The request that \<^verbatim>\<open>New()\<close> builds, and the responses of the executors.\<close>

definition empty_request :: request where
  "empty_request =
     \<lparr>req_Method = ''GET'',
      req_URL = \<lparr>url_Scheme = [], url_Opaque = [], url_User = None, url_Host = [],
                 url_Path = [], url_RawPath = [], url_ForceQuery = False,
                 url_RawQuery = [], url_Fragment = [], url_RawFragment = []\<rparr>,
      req_Header = [], req_Body = None\<rparr>"

definition response404 :: response where
  "response404 = \<lparr>resp_StatusCode = 404, resp_Body = Inr ''{\"msg\":\"nope\"}''\<rparr>"

definition response200 :: response where
  "response200 = \<lparr>resp_StatusCode = 200, resp_Body = Inr ''{\"id\":5}''\<rparr>"

definition response200cut :: response where
  "response200cut = \<lparr>resp_StatusCode = 200, resp_Body = Inr ''{\"id\":''\<rparr>"

section \<open>Properties\<close>

subsection \<open>Merging parameter sources\<close>

lemma map_of_foldl_assign:
  "map_of (foldl assign m kvs) = map_of m ++ map_of (rev kvs)"
proof (induction kvs arbitrary: m)
  case Nil
  show ?case by simp
next
  case (Cons kv kvs)
  have "map_of (foldl assign m (kv # kvs)) = map_of (assign m kv) ++ map_of (rev kvs)"
    using Cons.IH [of "assign m kv"] by simp
  also have "\<dots> = map_of m ++ map_of (rev (kv # kvs))"
    by (cases kv) (simp add: assign_def update_conv' map_add_upd_left fun_eq_iff map_add_def
        split: option.splits)
  finally show ?case .
qed

lemma distinct_foldl_assign:
  "distinct (map fst m) \<Longrightarrow> distinct (map fst (foldl assign m kvs))"
  by (induction kvs arbitrary: m) (simp_all add: assign_def distinct_update)

lemma unmarshal_map_distinct:
  "json_Unmarshal_map j = Inr val \<Longrightarrow> distinct (map fst val)"
  by (cases j) (auto simp: distinct_foldl_assign)

lemma source_map_distinct: "source_map p = Inr val \<Longrightarrow> distinct (map fst val)"
  by (auto simp: source_map_def unmarshal_map_distinct split: sum.splits)

lemma map_of_rev_distinct:
  "distinct (map fst xs) \<Longrightarrow> map_of (rev xs) = map_of xs"
  by (rule map_of_inject_set [THEN iffD2]) (simp_all add: rev_map [symmetric])

lemma toMap_loop_Cons:
  "toMap_loop acc (p # ps) = Inr m \<Longrightarrow>
   \<exists>val. source_map p = Inr val \<and> toMap_loop (foldl assign acc val) ps = Inr m"
  by (auto simp: source_map_def split: sum.splits)

lemma toMap_loop_append:
  "toMap_loop acc (pre @ post) = Inr m \<Longrightarrow>
   \<exists>mid. toMap_loop acc pre = Inr mid \<and> toMap_loop mid post = Inr m"
  by (induction pre arbitrary: acc) (auto split: sum.splits)

text \<open>Sources that do not produce a key leave its entry as it was.\<close>

lemma toMap_loop_absent:
  "toMap_loop acc ps = Inr m \<Longrightarrow>
   (\<And>p val. p \<in> set ps \<Longrightarrow> source_map p = Inr val \<Longrightarrow> map_of val k = None) \<Longrightarrow>
   map_of m k = map_of acc k"
proof (induction ps arbitrary: acc)
  case Nil
  then show ?case by simp
next
  case (Cons p ps)
  from Cons.prems(1) obtain val where v: "source_map p = Inr val"
    and r: "toMap_loop (foldl assign acc val) ps = Inr m"
    using toMap_loop_Cons by blast
  have "map_of val k = None" using Cons.prems(2) [of p val] v by simp
  then have "map_of (rev val) k = None"
    by (simp add: map_of_eq_None_iff)
  then have "map_of (foldl assign acc val) k = map_of acc k"
    by (simp add: map_of_foldl_assign map_add_def)
  moreover have "map_of m k = map_of (foldl assign acc val) k"
  proof (rule Cons.IH [OF r])
    fix q val' assume "q \<in> set ps" "source_map q = Inr val'"
    then show "map_of val' k = None" using Cons.prems(2) [of q val'] by simp
  qed
  ultimately show ?case by simp
qed

text \<open>
  C1. Last write wins: when \<^verbatim>\<open>toMap\<close> returns a map, and the source at position
  \<open>i\<close> produces the key \<open>k\<close> with the value \<open>v\<close>, and no source after it
  produces \<open>k\<close>, then the map holds \<open>v\<close> under \<open>k\<close>, whatever the sources
  before \<open>i\<close> produce.
\<close>

theorem toMap_last_write_wins:
  assumes "toMap params = Inr m"
    and "i < length params"
    and "source_map (params ! i) = Inr val"
    and "map_of val k = Some v"
    and "\<forall>j val'. i < j \<and> j < length params \<and> source_map (params ! j) = Inr val'
           \<longrightarrow> map_of val' k = None"
  shows "map_of m k = Some v"
proof -
  let ?pre = "take i params" and ?post = "drop (Suc i) params"
  have split: "params = ?pre @ (params ! i) # ?post"
    using assms(2) by (rule id_take_nth_drop)
  from assms(1) have "toMap_loop [] (?pre @ (params ! i) # ?post) = Inr m"
    unfolding toMap_def using split by simp
  then obtain mid where "toMap_loop mid ((params ! i) # ?post) = Inr m"
    using toMap_loop_append by blast
  then obtain val' where v': "source_map (params ! i) = Inr val'"
    and rest: "toMap_loop (foldl assign mid val') ?post = Inr m"
    using toMap_loop_Cons by blast
  from v' assms(3) have [simp]: "val' = val" by simp
  have "map_of m k = map_of (foldl assign mid val) k"
  proof (rule toMap_loop_absent)
    show "toMap_loop (foldl assign mid val) ?post = Inr m" using rest by simp
  next
    fix q w assume q: "q \<in> set ?post" and w: "source_map q = Inr w"
    from q obtain n where n: "n < length ?post" "q = ?post ! n"
      by (auto simp: in_set_conv_nth)
    then have "q = params ! (Suc i + n)" "Suc i + n < length params" by auto
    with w assms(5) [rule_format, of "Suc i + n" w] show "map_of w k = None" by simp
  qed
  also have "\<dots> = Some v"
    using assms(4) source_map_distinct [OF assms(3)]
    by (simp add: map_of_foldl_assign map_of_rev_distinct)
  finally show ?thesis .
qed

theorem toMap_last_write_wins_witness:
  "toMap merge_example =
     Inr [(''a'', VFloat64 (Finite 2 0)), (''b'', VString ''x''), (''c'', VBool True)]
   \<and> source_map (merge_example ! 1) = Inr [(''a'', VFloat64 (Finite 2 0))]
   \<and> map_of [(''a'', VFloat64 (Finite 2 0)), (''b'', VString ''x''), (''c'', VBool True)] ''a''
       = Some (VFloat64 (Finite 2 0))"
proof -
  let ?m = "[(''a'', VFloat64 (Finite 2 0)), (''b'', VString ''x''), (''c'', VBool True)]"
  have h1: "toMap merge_example = Inr ?m"
    by code_simp
  have h2: "1 < length merge_example"
    by (simp add: merge_example_def)
  have h3: "source_map (merge_example ! 1) = Inr [(''a'', VFloat64 (Finite 2 0))]"
    by code_simp
  have h4: "map_of [(''a'', VFloat64 (Finite 2 0))] ''a'' = Some (VFloat64 (Finite 2 0))"
    by simp
  have s2: "source_map (merge_example ! 2) = Inr [(''c'', VBool True)]"
    by code_simp
  have h5: "\<forall>j val'. 1 < j \<and> j < length merge_example
              \<and> source_map (merge_example ! j) = Inr val' \<longrightarrow> map_of val' ''a'' = None"
  proof (intro allI impI)
    fix j val'
    assume a: "1 < j \<and> j < length merge_example \<and> source_map (merge_example ! j) = Inr val'"
    then have "j = 2" by (simp add: merge_example_def)
    with a s2 have "val' = [(''c'', VBool True)]" by simp
    then show "map_of val' ''a'' = None" by simp
  qed
  from toMap_last_write_wins [OF h1 h2 h3 h4 h5] h1 h3 show ?thesis by simp
qed

subsection \<open>Path\<close>

text \<open>
  C8. When the stored URL or the given path does not parse, \<^verbatim>\<open>Path\<close> returns the
  builder as it was: the stored URL and every other field are unchanged, and there is
  no error to return.
\<close>

theorem Path_unparsable_is_noop:
  "(\<exists>e. url_Parse L (rawURL s) = Inl e) \<or> (\<exists>e. url_Parse L path = Inl e) \<Longrightarrow> Path L s path = s"
  by (auto simp: Path_def Let_def split: sum.splits)

theorem Path_unparsable_is_noop_witness:
  "url_Parse lib200 del_path = Inl (UrlError ''invalid control character in URL'')
   \<and> Path lib200 base_example del_path = base_example
   \<and> rawURL (Path lib200 base_example del_path) = ''/a''"
proof -
  have h: "url_Parse lib200 del_path = Inl (UrlError ''invalid control character in URL'')"
    by code_simp
  then have "(\<exists>e. url_Parse lib200 (rawURL base_example) = Inl e) \<or> (\<exists>e. url_Parse lib200 del_path = Inl e)"
    by blast
  from Path_unparsable_is_noop [OF this] have p: "Path lib200 base_example del_path = base_example" .
  have "rawURL base_example = ''/a''"
    by (simp add: base_example_def Base_def)
  with h p show ?thesis by simp
qed

subsection \<open>Packaging by method\<close>









subsection \<open>Panics\<close>

text \<open>
  C3. The copy made by the method \<^verbatim>\<open>New\<close> has no serializer, and
  \<^verbatim>\<open>Request\<close> calls it: on \<^verbatim>\<open>New().New()\<close> both \<^verbatim>\<open>Request\<close> and
  \<^verbatim>\<open>Receive\<close> panic instead of returning an error.
\<close>

theorem clone_Request_panics:
  "Request lib200 [] clone_example = Panics NilFuncCall
   \<and> Receive lib200 [] clone_example None [] = Panics NilFuncCall"
  by code_simp

text \<open>The same for every library in which the stored URL parses.\<close>

lemma RestClient_New_Request_panics:
  assumes "url_Parse L (rawURL s) = Inr u"
    and "method s \<in> {''GET'', ''HEAD'', ''POST'', ''PUT'', ''PATCH'', ''DELETE''}"
  shows "Request L h (RestClient_New s) = Panics NilFuncCall"
  using assms by (auto simp: Request_def RestClient_New_def call_serialize_def)

text \<open>
  A list that starts with a string and holds a value of another type panics in the
  type assertion of \<^verbatim>\<open>changeMapToURLValues\<close>.
\<close>

lemma mixed_list_panics:
  "formSting [GoMap [(''k'', GoSlice [GoString ''x'', GoInt 1])]] = Panics TypeAssertion"
  by code_simp

subsection \<open>FORM serialization of numbers and lists\<close>

lemma bitlen_bound: "0 < a \<Longrightarrow> a < 2 ^ n \<Longrightarrow> bitlen a \<le> n"
proof (induction a arbitrary: n rule: bitlen.induct)
  case (1 a)
  show ?case
  proof (cases n)
    case 0
    with "1.prems" show ?thesis by simp
  next
    case (Suc m)
    show ?thesis
    proof (cases "a div 2 = 0")
      case True
      then show ?thesis using "1.prems" Suc
        by (subst bitlen.simps, subst bitlen.simps) simp
    next
      case False
      then have pos: "0 < a div 2" using "1.prems" by simp
      have "a div 2 < 2 ^ m" using "1.prems" Suc by simp
      from "1.IH" [OF _ pos this] "1.prems" have "bitlen (a div 2) \<le> m" by simp
      then show ?thesis using "1.prems" Suc by (subst bitlen.simps) simp
    qed
  qed
qed

lemma bitlen_pos: "0 < a \<Longrightarrow> 0 < bitlen a"
  by (subst bitlen.simps) simp

lemma decimal_times_10: "0 < x \<Longrightarrow> decimal (x * 10) = decimal x @ ''0''"
  by (subst decimal.simps) simp

lemma decimal_times_pow: "0 < x \<Longrightarrow> decimal (x * 10 ^ q) = decimal x @ replicate q CHR ''0''"
proof (induction q)
  case 0
  then show ?case by simp
next
  case (Suc q)
  have "x * 10 ^ Suc q = (x * 10 ^ q) * 10" by simp
  then have "decimal (x * 10 ^ Suc q) = decimal ((x * 10 ^ q) * 10)" by (rule arg_cong)
  also have "\<dots> = decimal (x * 10 ^ q) @ ''0''" using Suc.prems by (intro decimal_times_10) simp
  finally show ?case using Suc by (simp add: replicate_append_same)
qed

lemma length_decimal: "0 \<le> a \<Longrightarrow> a < 10 ^ Suc k \<Longrightarrow> length (decimal a) \<le> Suc k"
proof (induction k arbitrary: a)
  case 0
  then show ?case by (subst decimal.simps) simp
next
  case (Suc k)
  show ?case
  proof (cases "a < 10")
    case True
    then show ?thesis by (subst decimal.simps) simp
  next
    case False
    have "a div 10 < 10 ^ Suc k" using Suc.prems by simp
    moreover have "0 \<le> a div 10" using Suc.prems by simp
    ultimately have "length (decimal (a div 10)) \<le> Suc k" by (rule Suc.IH [rotated])
    then show ?thesis using False by (subst decimal.simps) simp
  qed
qed

lemma length_decimal_pos: "0 < length (decimal a)"
  by (subst decimal.simps) simp

text \<open>
  The search for the shortest decimal of an integer \<open>a\<close> below \<open>2 ^ 53\<close>: the
  interval around \<open>a\<close> is at most half a unit wide on each side, so a multiple of a
  power of ten lies in it only when it is \<open>a\<close> itself.
\<close>

lemma shortest_integer:
  assumes a: "0 < a" and K: "4 \<le> K" and s: "s < 0" and Ks: "pw 2 (- s) = K"
    and lo: "lo = a * K - c" and c: "c = 1 \<or> c = 2" and hi: "hi = a * K + 2"
  shows "nat p < fuel \<Longrightarrow> 0 \<le> p \<Longrightarrow>
         (case shortest fuel p (a * K) lo hi s incl of (D, q) \<Rightarrow> fmtF D q) = decimal a"
proof (induction fuel arbitrary: p)
  case 0
  then show ?case by simp
next
  case (Suc n)
  have ps: "pw 2 s = 1" using s by (simp add: pw_def)
  have p10: "pw 10 (- p) = 1" "pw 10 p = 10 ^ nat p" using Suc.prems by (simp_all add: pw_def)
  have pos10: "(0::int) < 10 ^ nat p" by simp
  define Dl where "Dl = a div 10 ^ nat p"
  have fl: "floor_scaled (a * K) s p = Dl"
    using K by (simp add: floor_scaled_def ps p10 Ks Dl_def)
  have dm: "Dl * 10 ^ nat p + a mod 10 ^ nat p = a"
    unfolding Dl_def by (rule div_mult_mod_eq)
  have m0: "0 \<le> a mod 10 ^ nat p" and m1: "a mod 10 ^ nat p < 10 ^ nat p"
    using pos10 by simp_all
  have le: "Dl * 10 ^ nat p \<le> a" using dm m0 by linarith
  have "(Dl + 1) * 10 ^ nat p = Dl * 10 ^ nat p + 10 ^ nat p"
    by (simp add: distrib_right)
  then have lt: "a < (Dl + 1) * 10 ^ nat p" using dm m1 by linarith
  have dl: "diff_scaled Dl p lo s = (Dl * 10 ^ nat p - a) * K + c"
    by (simp add: diff_scaled_def ps p10 Ks lo algebra_simps)
  have dh: "diff_scaled (Dl + 1) p hi s = ((Dl + 1) * 10 ^ nat p - a) * K - 2"
    by (simp add: diff_scaled_def ps p10 Ks hi algebra_simps)
  have ge: "K \<le> ((Dl + 1) * 10 ^ nat p - a) * K"
    using mult_right_mono [of 1 "(Dl + 1) * 10 ^ nat p - a" K] lt K by simp
  have okh: "\<not> diff_scaled (Dl + 1) p hi s \<le> 0" "\<not> diff_scaled (Dl + 1) p hi s < 0"
    using dh ge K by linarith+
  show ?case
  proof (cases "Dl * 10 ^ nat p = a")
    case True
    then have okl: "diff_scaled Dl p lo s \<ge> 0" "diff_scaled Dl p lo s > 0"
      using c dl by auto
    have "0 < Dl * 10 ^ nat p" using True a by simp
    then have Dpos: "0 < Dl" using pos10 by (simp add: zero_less_mult_iff)
    have "fmtF Dl p = decimal Dl @ replicate (nat p) CHR ''0''"
      using Suc.prems by (simp add: fmtF_def)
    also have "\<dots> = decimal (Dl * 10 ^ nat p)" using Dpos by (simp add: decimal_times_pow)
    finally have "fmtF Dl p = decimal a" using True by simp
    then show ?thesis using okl okh by (cases incl) (simp_all add: fl Let_def)
  next
    case False
    then have "Dl * 10 ^ nat p - a \<le> - 1" using le by simp
    then have "(Dl * 10 ^ nat p - a) * K \<le> - K"
      using mult_right_mono [of "Dl * 10 ^ nat p - a" "- 1" K] K by simp
    then have nokl: "\<not> diff_scaled Dl p lo s \<ge> 0" "\<not> diff_scaled Dl p lo s > 0"
      using dl K c by linarith+
    have "p \<noteq> 0" using False by (auto simp: Dl_def)
    then have p': "nat (p - 1) < n" "0 \<le> p - 1" using Suc.prems by auto
    from Suc.IH [OF p'] show ?thesis using nokl okh by (cases incl) (simp_all add: fl Let_def)
  qed
qed

lemma shortest_decimal_integer:
  assumes a: "0 < a" and b: "a < 2 ^ 53"
  shows "(case shortest_decimal a 0 of (D, q) \<Rightarrow> fmtF D q) = decimal a"
proof -
  define l where "l = int (bitlen a)"
  have l53: "l \<le> 53" using bitlen_bound [OF a b] by (simp add: l_def)
  have l1: "1 \<le> l" using bitlen_pos [OF a] by (simp add: l_def)
  define s where "s = l - 55"
  define K where "K = pw 2 (- s)"
  have E: "max (0 + l - 53) (- 1074) = l - 53" using l1 by simp
  have sneg: "s < 0" using l53 by (simp add: s_def)
  have K4: "4 \<le> K"
  proof -
    have "nat (55 - l) \<ge> 2" using l53 by simp
    then have "(2::int) ^ 2 \<le> 2 ^ nat (55 - l)" by (intro power_increasing) simp_all
    then show ?thesis by (simp add: K_def s_def pw_def)
  qed
  have Keq: "4 * pw 2 (0 - (l - 53)) = K"
  proof -
    have "nat (55 - l) = Suc (Suc (nat (53 - l)))" using l53 by simp
    then show ?thesis by (simp add: K_def s_def pw_def)
  qed
  have one: "pw 2 (l - 53 - 0) = 1" using l53 by (simp add: pw_def)
  have V: "a * 4 * pw 2 (0 - (l - 53)) div pw 2 (l - 53 - 0) = a * K"
    using Keq one by (simp add: mult.assoc)
  have ip: "floor_scaled (a * K) (l - 53 - 2) 0 = a"
  proof -
    have "pw 2 (l - 53 - 2) = 1" using l53 by (simp add: pw_def)
    moreover have "pw 2 (- (l - 53 - 2)) = K" by (simp add: K_def s_def)
    ultimately show ?thesis using K4 by (simp add: floor_scaled_def pw_def)
  qed
  have len: "length (decimal a) \<le> 16"
  proof -
    have "a < 10 ^ Suc 15" using b by simp
    with a show ?thesis using length_decimal [of a 15] by simp
  qed
  define p0 where "p0 = int (length (decimal a)) - 1"
  have p0: "0 \<le> p0" "nat p0 < 17" using len length_decimal_pos [of a] by (simp_all add: p0_def)
  define c :: int where "c = (if a = 2 ^ (nat l - 1) \<and> l - 53 > - 1074 then 1 else 2)"
  have c: "c = 1 \<or> c = 2" by (simp add: c_def)
  have "(case shortest 17 p0 (a * K) (a * K - c) (a * K + 2) s (even (a * K div 4)) of
           (D, q) \<Rightarrow> fmtF D q) = decimal a"
    by (rule shortest_integer [OF a K4 sneg _ _ c _ p0(2) p0(1)]) (simp_all add: K_def)
  moreover have "shortest_decimal a 0 =
      shortest 17 p0 (a * K) (a * K - c) (a * K + 2) s (even (a * K div 4))"
    unfolding shortest_decimal_def Let_def l_def [symmetric] E V ip
    using a by (simp add: p0_def c_def s_def)
  ultimately show ?thesis by simp
qed

lemma FormatFloat_small_integer:
  assumes "\<bar>n\<bar> < 2 ^ 53"
  shows "FormatFloat (f64_of_int n) = FormatInt n"
proof -
  have f: "f64_of_int n = Finite n 0"
  proof (cases "n = 0")
    case True
    then show ?thesis by (simp add: f64_of_int_def Let_def bitlen.simps)
  next
    case False
    then have "bitlen \<bar>n\<bar> \<le> 53" using assms by (intro bitlen_bound) simp_all
    then show ?thesis by (simp add: f64_of_int_def Let_def)
  qed
  show ?thesis
  proof (cases "n = 0")
    case True
    have "decimal 0 = ''0''" by (subst decimal.simps) simp
    then show ?thesis unfolding f using True by (simp add: FormatFloat_def FormatInt_def)
  next
    case False
    then have "0 < \<bar>n\<bar>" by simp
    from shortest_decimal_integer [OF this assms]
    show ?thesis unfolding f using False
      by (auto simp: FormatFloat_def FormatInt_def split: prod.splits)
  qed
qed

lemma decimal_digits: "0 \<le> a \<Longrightarrow> set (decimal a) \<subseteq> set ''0123456789''"
proof (induction a rule: decimal.induct)
  case (1 n)
  define D where "D = ''0123456789''"
  have len: "length D = 10" by (simp add: D_def)
  have nth: "i < 10 \<Longrightarrow> D ! i \<in> set D" for i
    using len by (intro nth_mem) simp
  have unfold: "decimal n = (if n < 10 then [D ! nat n] else decimal (n div 10) @ [D ! nat (n mod 10)])"
    unfolding D_def by (rule decimal.simps)
  show ?case
  proof (cases "n < 10")
    case True
    with "1.prems" have "nat n < 10" by simp
    from nth [OF this] have "set (decimal n) \<subseteq> set D"
      unfolding unfold using True by simp
    then show ?thesis by (simp only: D_def)
  next
    case False
    have "nat (n mod 10) < 10" by simp
    from nth [OF this] have d: "D ! nat (n mod 10) \<in> set D" .
    have "0 \<le> n div 10" using "1.prems" by simp
    from "1.IH" [OF False this] have "set (decimal (n div 10)) \<subseteq> set D"
      by (simp only: D_def)
    with d have "set (decimal n) \<subseteq> set D"
      unfolding unfold using False by simp
    then show ?thesis by (simp only: D_def)
  qed
qed

lemma digit_not_escaped: "c \<in> set ''0123456789'' \<Longrightarrow> \<not> shouldEscape c"
  unfolding shouldEscape_def by auto

lemma minus_not_escaped: "\<not> shouldEscape CHR ''-''"
  unfolding shouldEscape_def by simp

lemma QueryEscape_plain: "\<forall>c \<in> set s. \<not> shouldEscape c \<Longrightarrow> QueryEscape s = s"
  by (induction s) (simp_all add: QueryEscape_def escape_byte_def)

lemma QueryEscape_FormatInt: "QueryEscape (FormatInt n) = FormatInt n"
proof (rule QueryEscape_plain, rule ballI)
  fix c assume c: "c \<in> set (FormatInt n)"
  show "\<not> shouldEscape c"
  proof (cases "n < 0")
    case True
    with c have "c = CHR ''-'' \<or> c \<in> set (decimal (- n))" by (simp add: FormatInt_def)
    moreover have "set (decimal (- n)) \<subseteq> set ''0123456789''"
      using True by (intro decimal_digits) simp
    ultimately show ?thesis using digit_not_escaped minus_not_escaped by blast
  next
    case False
    with c have "c \<in> set (decimal n)" by (simp add: FormatInt_def)
    moreover have "set (decimal n) \<subseteq> set ''0123456789''"
      using False by (intro decimal_digits) simp
    ultimately show ?thesis using digit_not_escaped by blast
  qed
qed

lemma Values_Encode_single: "Values_Encode [(k, vs)] = join_amp (map (\<lambda>val. QueryEscape k @ ''='' @ QueryEscape val) vs)"
  by (simp add: Values_Encode_def)

lemma toMap_single:
  "json_Marshal x = Inr j \<Longrightarrow> toMap [GoMap [(k, x)]] = Inr [(k, decode_iface j)]"
  by (simp add: toMap_def assign_def)

text \<open>
  Below \<open>2 ^ 53\<close> in absolute value the detour through float64 changes nothing: the
  integer is encoded as its decimal representation.
\<close>

lemma form_small_integer_exact:
  assumes "\<bar>n\<bar> < 2 ^ 53"
  shows "formSting [GoMap [(k, GoInt n)]] = Returns (Inr (QueryEscape k @ ''='' @ FormatInt n))"
proof -
  have "toMap [GoMap [(k, GoInt n)]] = Inr [(k, VFloat64 (f64_of_int n))]"
    by (simp add: toMap_single)
  moreover have "changeMapToURLValues [(k, VFloat64 (f64_of_int n))] = Returns [(k, [FormatInt n])]"
    using FormatFloat_small_integer [OF assms]
    by (simp add: changeMapToURLValues_def Values_Add_def assign_def)
  ultimately show ?thesis
    by (simp add: formSting_def Values_Encode_single QueryEscape_FormatInt)
qed

text \<open>
  C4. The integer \<open>2 ^ 53 + 1\<close>, a value of an \<^verbatim>\<open>int64\<close>, reaches the type switch
  as a float64 and is printed as \<open>2 ^ 53\<close>, which is not its decimal representation.
\<close>

theorem form_large_integer_rounded:
  "formSting [GoMap [(''n'', GoInt 9007199254740993)]] = Returns (Inr ''n=9007199254740992'')
   \<and> FormatInt 9007199254740993 = ''9007199254740993''"
  by code_simp

text \<open>
  C5. A list of integers, or of floats, reaches the type switch as a
  \<^verbatim>\<open>[]interface{}\<close> of float64, which no case of the inner switch takes: the key is
  dropped.
\<close>

theorem form_number_list_dropped:
  "formSting [GoMap [(''n'', GoSlice [GoInt 1, GoInt 2])]] = Returns (Inr [])
   \<and> formSting [GoMap [(''x'', GoSlice [GoFloat (Finite 1 (- 1))])]] = Returns (Inr [])"
  by code_simp

lemma marshal_strings: "marshal_list (map GoString xs) = Inr (map JStr xs)"
  by (induction xs) simp_all

lemma marshal_bools: "marshal_list (map GoBool xs) = Inr (map JBool xs)"
  by (induction xs) simp_all

lemma Values_Add_present:
  "Values_Add ((k, vs) # rest) k x = (k, vs @ [x]) # rest"
  by (simp add: Values_Add_def assign_def)

lemma add_strings_all:
  "add_strings ((k, vs) # rest) k (map VString xs) = Returns ((k, vs @ xs) # rest)"
  by (induction xs arbitrary: vs) (simp_all add: Values_Add_present)

lemma add_bools_all:
  "add_bools ((k, vs) # rest) k (map VBool xs) = Returns ((k, vs @ map FormatBool xs) # rest)"
  by (induction xs arbitrary: vs) (simp_all add: Values_Add_present)

text \<open>
  A list of strings, or of booleans, is encoded as one pair per element in the order of
  the list.
\<close>

lemma form_string_list_repeats:
  "formSting [GoMap [(k, GoSlice (map GoString (x # xs)))]]
     = Returns (Inr (join_amp (map (\<lambda>val. QueryEscape k @ ''='' @ QueryEscape val) (x # xs))))"
proof -
  have "toMap [GoMap [(k, GoSlice (map GoString (x # xs)))]]
          = Inr [(k, VIfaces (map VString (x # xs)))]"
    using marshal_strings [of "x # xs"]
    by (simp add: toMap_def assign_def comp_def del: marshal_list.simps)
  moreover have "changeMapToURLValues [(k, VIfaces (map VString (x # xs)))] = Returns [(k, x # xs)]"
    using add_strings_all [of k "[x]" "[]" xs]
    by (simp add: changeMapToURLValues_def Values_Add_def assign_def)
  ultimately show ?thesis
    by (simp add: formSting_def Values_Encode_single)
qed

lemma form_bool_list_repeats:
  "formSting [GoMap [(k, GoSlice (map GoBool (x # xs)))]]
     = Returns (Inr (join_amp (map (\<lambda>val. QueryEscape k @ ''='' @ QueryEscape (FormatBool val)) (x # xs))))"
proof -
  have "toMap [GoMap [(k, GoSlice (map GoBool (x # xs)))]]
          = Inr [(k, VIfaces (map VBool (x # xs)))]"
    using marshal_bools [of "x # xs"]
    by (simp add: toMap_def assign_def comp_def del: marshal_list.simps)
  moreover have "changeMapToURLValues [(k, VIfaces (map VBool (x # xs)))]
          = Returns [(k, map FormatBool (x # xs))]"
    using add_bools_all [of k "[FormatBool x]" "[]" xs]
    by (simp add: changeMapToURLValues_def Values_Add_def assign_def)
  ultimately show ?thesis
    by (simp add: formSting_def Values_Encode_single comp_def)
qed

text \<open>The example of the list of tags, and a list of booleans.\<close>

lemma form_string_list:
  "formSting [GoMap [(''tags'', GoSlice [GoString ''x'', GoString ''y''])]]
     = Returns (Inr ''tags=x&tags=y'')"
  by code_simp

lemma form_bool_list:
  "formSting [GoMap [(''f'', GoSlice [GoBool True, GoBool False])]]
     = Returns (Inr ''f=true&f=false'')"
  by code_simp

subsection \<open>Receive\<close>

text \<open>
  C6. When the request is built and sent, the body of the response is read, and the
  status is not 200, \<^verbatim>\<open>Receive\<close> returns the error whose message is the body,
  whatever destination was passed (none, or any value). The status-code argument is
  absent or a pointer that is not nil. The other \<^verbatim>\<open>Receive\<close> does the same for
  every status outside 200 to 299.
\<close>

theorem Receive_api_error:
  assumes "Request L h s = Returns (Inr req)"
    and "httpClient s req = Inr resp"
    and "resp_Body resp = Inr body"
    and "resp_StatusCode resp \<noteq> 200"
    and "store_status statusCode (resp_StatusCode resp) = Some statusCode'"
  shows "Receive L h s val statusCode =
           Returns \<lparr>recv_err = Some (ApiError body), recv_value = val,
                    recv_statusCode = statusCode'\<rparr>
         \<and> (resp_StatusCode resp < 200 \<or> resp_StatusCode resp > 299 \<longrightarrow>
              Receive_part_000 L (Returns (Inr req)) (httpClient s) val =
                Returns \<lparr>recv_err = Some (ApiError body), recv_value = val,
                         recv_statusCode = []\<rparr>)"
  using assms by (simp add: Receive_def Receive_part_000_def)

theorem Receive_api_error_witness:
  "Request lib404 [] (New lib404) = Returns (Inr empty_request)
   \<and> httpClient (New lib404) empty_request = Inr response404
   \<and> resp_Body response404 = Inr ''{\"msg\":\"nope\"}''
   \<and> resp_StatusCode response404 \<noteq> 200
   \<and> store_status [Ptr 0] (resp_StatusCode response404) = Some [Ptr 404]
   \<and> Receive lib404 [] (New lib404) (Some \<lparr>item_ID = 0\<rparr>) [Ptr 0] =
        Returns \<lparr>recv_err = Some (ApiError ''{\"msg\":\"nope\"}''),
                 recv_value = Some \<lparr>item_ID = 0\<rparr>, recv_statusCode = [Ptr 404]\<rparr>
   \<and> Receive lib404 [] (New lib404) None [Ptr 0] =
        Returns \<lparr>recv_err = Some (ApiError ''{\"msg\":\"nope\"}''),
                 recv_value = None, recv_statusCode = [Ptr 404]\<rparr>
   \<and> Receive_part_000 lib404 (Returns (Inr empty_request)) (httpClient (New lib404)) None =
        Returns \<lparr>recv_err = Some (ApiError ''{\"msg\":\"nope\"}''),
                 recv_value = None, recv_statusCode = []\<rparr>"
proof -
  have h1: "Request lib404 [] (New lib404) = Returns (Inr empty_request)"
    by code_simp
  have h2: "httpClient (New lib404) empty_request = Inr response404"
    by code_simp
  have h3: "resp_Body response404 = Inr ''{\"msg\":\"nope\"}''"
    by (simp add: response404_def)
  have h4: "resp_StatusCode response404 \<noteq> 200"
    by (simp add: response404_def)
  have h5: "store_status [Ptr 0] (resp_StatusCode response404) = Some [Ptr 404]"
    by (simp add: response404_def)
  have out: "resp_StatusCode response404 < 200 \<or> resp_StatusCode response404 > 299"
    by (simp add: response404_def)
  from Receive_api_error [OF h1 h2 h3 h4 h5, of "Some \<lparr>item_ID = 0\<rparr>"]
    Receive_api_error [OF h1 h2 h3 h4 h5, of None] out h1 h2 h3 h4 h5
  show ?thesis by simp
qed

text \<open>
  C7. When the request is built and sent, the body of the response is read, the status
  is 200 and a destination is passed, \<^verbatim>\<open>Receive\<close> leaves in the destination what
  \<^verbatim>\<open>json.Unmarshal\<close> decodes from the body. It returns no error when the decoder
  reports none, and otherwise an error that carries the error of the decoder and the
  body as it was read.
\<close>

theorem Receive_decodes:
  assumes "Request L h s = Returns (Inr req)"
    and "httpClient s req = Inr resp"
    and "resp_Body resp = Inr body"
    and "resp_StatusCode resp = 200"
    and "store_status statusCode 200 = Some statusCode'"
  shows "Receive L h s (Some d) statusCode =
           Returns \<lparr>recv_err = (case snd (json_Unmarshal L body d) of
                                  None \<Rightarrow> None
                                | Some err \<Rightarrow> Some (ParseBodyError err body)),
                    recv_value = Some (fst (json_Unmarshal L body d)),
                    recv_statusCode = statusCode'\<rparr>"
  using assms by (simp add: Receive_def split: prod.splits option.splits)

theorem Receive_decodes_witness:
  "Request lib200 [] (New lib200) = Returns (Inr empty_request)
   \<and> httpClient (New lib200) empty_request = Inr response200
   \<and> resp_Body response200 = Inr ''{\"id\":5}''
   \<and> resp_StatusCode response200 = 200
   \<and> store_status [] 200 = Some []
   \<and> json_Unmarshal lib200 ''{\"id\":5}'' \<lparr>item_ID = 0\<rparr> = (\<lparr>item_ID = 5\<rparr>, None)
   \<and> Receive lib200 [] (New lib200) (Some \<lparr>item_ID = 0\<rparr>) [] =
        Returns \<lparr>recv_err = None, recv_value = Some \<lparr>item_ID = 5\<rparr>, recv_statusCode = []\<rparr>"
proof -
  have h1: "Request lib200 [] (New lib200) = Returns (Inr empty_request)"
    by code_simp
  have h2: "httpClient (New lib200) empty_request = Inr response200"
    by code_simp
  have h3: "resp_Body response200 = Inr ''{\"id\":5}''"
    by (simp add: response200_def)
  have h4: "resp_StatusCode response200 = 200"
    by (simp add: response200_def)
  have h5: "store_status [] 200 = Some []"
    by simp
  have d: "json_Unmarshal lib200 ''{\"id\":5}'' \<lparr>item_ID = 0\<rparr> = (\<lparr>item_ID = 5\<rparr>, None)"
    by code_simp
  from Receive_decodes [OF h1 h2 h3 h4 h5, of "\<lparr>item_ID = 0\<rparr>"] d h1 h2 h3 h4 h5
  show ?thesis by simp
qed

text \<open>A body that is cut off gives the decode error with the body in it.\<close>

lemma Receive_cut_body:
  "Receive lib200cut [] (New lib200cut) (Some \<lparr>item_ID = 0\<rparr>) [] =
     Returns \<lparr>recv_err = Some (ParseBodyError SyntaxError ''{\"id\":''),
              recv_value = Some \<lparr>item_ID = 0\<rparr>, recv_statusCode = []\<rparr>"
  by code_simp

subsection \<open>The copy constructor\<close>

text \<open>
  C9. The copy shares the backing arrays of the header values with the original.
  After \<^verbatim>\<open>orig.Add("A","y")\<close> the original reads \<^verbatim>\<open>1, 2, 3, y\<close> under
  \<^verbatim>\<open>A\<close>; after \<^verbatim>\<open>clone.Add("A","x")\<close> on the copy made before, the original
  reads \<^verbatim>\<open>1, 2, 3, x\<close>.
\<close>

theorem clone_Add_overwrites_original:
  "Header_Values (fst original_added) (header (snd original_added)) ''A''
     = [''1'', ''2'', ''3'', ''y'']
   \<and> Header_Values (fst clone_added) (header (snd original_added)) ''A''
     = [''1'', ''2'', ''3'', ''x'']"
  by code_simp

text \<open>
  The parameter sources of the copy are a list of their own, and \<^verbatim>\<open>Set\<close> stores
  a new slice: these mutations of one builder are not seen by the other.
\<close>

lemma clone_Param_frame:
  "data (Param (RestClient_New s) k v) = data s @ [GoMap [(k, v)]]
   \<and> data (ParamStruct (RestClient_New s) (Some x)) = data s @ [x]"
  by (simp add: Param_def ParamStruct_def RestClient_New_def)

subsection \<open>Defaults\<close>

lemma builder_keeps_serialize_and_method:
  "serialize (Base s raw) = serialize s \<and> method (Base s raw) = method s"
  "serialize (Path L s path) = serialize s \<and> method (Path L s path) = method s"
  "serialize (Param s k v) = serialize s \<and> method (Param s k v) = method s"
  "serialize (ParamStruct s d) = serialize s \<and> method (ParamStruct s d) = method s"
  "serialize (Doer L s doer) = serialize s \<and> method (Doer L s doer) = method s"
  "serialize (snd (Add L (h, s) k x)) = serialize s \<and> method (snd (Add L (h, s) k x)) = method s"
  "serialize (snd (Set L (h, s) k x)) = serialize s \<and> method (snd (Set L (h, s) k x)) = method s"
  by (simp_all add: Base_def Path_def Param_def ParamStruct_def Doer_def Add_def Set_def Let_def
      split: sum.splits option.splits prod.splits)






























end
